theory Spec2Isabelle
  imports Complex_Main "HOL-Library.Char_ord"
begin

section \<open>Data model (db/schema.ts, src/unnamed/part_003)\<close>

text \<open>
  The relational store is modelled as one record holding the four tables as lists of rows,
  in insertion order. A \<open>uuid\<close> primary key with \<open>defaultRandom()\<close> is a fresh number
  taken from the counter \<open>nextUuid\<close>; timestamps are numbers supplied by the caller
  (\<open>now\<close>). A lost connection to the database is outside this model. Of the column
  constraints, the model has the two that a write inside the \<open>try\<close> block of
  \<open>processPayment\<close> can violate: the widths of \<open>tx_hash\<close> and \<open>payer_wallet\<close>.
\<close>

type_synonym uuid = nat
type_synonym timestamp = nat

record User =
  user_id :: uuid
  arenaUserId :: int
  arenaUsername :: "string option"
  arenaSlug :: "string option"
  arenaAccessToken :: "string option"
  user_walletAddress :: "string option"
  user_createdAt :: timestamp
  user_updatedAt :: timestamp

record Paywall =
  pw_id :: uuid
  pw_blockId :: int
  ownerUserId :: "uuid option"
  priceUsdc :: string
  recipientWallet :: string
  active :: bool
  pw_createdAt :: timestamp
  pw_updatedAt :: timestamp

datatype PaymentStatus = Pending | Settled | Failed

record Payment =
  pay_id :: uuid
  paywallId :: "uuid option"
  pay_payerWallet :: string
  payerUserId :: "uuid option"
  amountUsdc :: string
  txHash :: "string option"
  status :: PaymentStatus
  settledAt :: "timestamp option"
  pay_createdAt :: timestamp

record AccessGrant =
  ag_id :: uuid
  ag_blockId :: int
  ag_payerWallet :: string
  ag_paymentId :: "uuid option"
  grantedAt :: timestamp

record Database =
  users :: "User list"
  paywalls :: "Paywall list"
  payments :: "Payment list"
  accessGrants :: "AccessGrant list"
  nextUuid :: uuid

section \<open>Strings\<close>

text \<open>
  \<open>String.prototype.toLowerCase\<close> on the characters a wallet address can hold: the
  letters \<open>A\<close> to \<open>Z\<close> go to \<open>a\<close> to \<open>z\<close>, every other character stays.
\<close>

definition lowerChar :: "char \<Rightarrow> char" where
  "lowerChar c =
     (if CHR ''A'' \<le> c \<and> c \<le> CHR ''Z'' then char_of (of_char c + (32::nat)) else c)"

definition toLowerCase :: "string \<Rightarrow> string" where
  "toLowerCase s = map lowerChar s"

text \<open>
  JavaScript's \<open>a || b\<close> on optional strings: \<open>undefined\<close> and the empty string are
  falsy, so the right operand is taken.
\<close>

definition truthy :: "string option \<Rightarrow> bool" where
  "truthy a = (case a of None \<Rightarrow> False | Some s \<Rightarrow> s \<noteq> [])"

definition orElse :: "string option \<Rightarrow> string option \<Rightarrow> string option" where
  "orElse a b = (if truthy a then a else b)"

definition orDefault :: "string option \<Rightarrow> string \<Rightarrow> string" where
  "orDefault a d = (case a of None \<Rightarrow> d | Some s \<Rightarrow> if s = [] then d else s)"

section \<open>Payment Record Store (services/payment.ts, src/unnamed/part_008)\<close>

record RecordPaymentParams =
  rp_paywallId :: uuid
  rp_payerWallet :: string
  rp_amountUsdc :: string
  rp_payerUserId :: "uuid option"

text \<open>\<open>recordPayment\<close>: insert a new row with status pending and return it.\<close>

definition recordPayment :: "timestamp \<Rightarrow> RecordPaymentParams \<Rightarrow> Database \<Rightarrow> Payment \<times> Database" where
  "recordPayment now params db =
     (let created = \<lparr> pay_id = nextUuid db,
                       paywallId = Some (rp_paywallId params),
                       pay_payerWallet = toLowerCase (rp_payerWallet params),
                       payerUserId = rp_payerUserId params,
                       amountUsdc = rp_amountUsdc params,
                       txHash = None,
                       status = Pending,
                       settledAt = None,
                       pay_createdAt = now \<rparr>
      in (created, db\<lparr> payments := payments db @ [created], nextUuid := Suc (nextUuid db) \<rparr>))"

text \<open>
  \<open>settlePayment\<close>: \<open>UPDATE payments SET status, txHash, settledAt WHERE id = paymentId
  RETURNING *\<close>; the first returned row, or null.
\<close>

definition settlePayment :: "timestamp \<Rightarrow> uuid \<Rightarrow> string \<Rightarrow> Database \<Rightarrow> Payment option \<times> Database" where
  "settlePayment now paymentId tx db =
     (let rows = map (\<lambda>p. if pay_id p = paymentId
                            then p\<lparr> status := Settled, txHash := Some tx, settledAt := Some now \<rparr>
                            else p) (payments db)
      in (find (\<lambda>p. pay_id p = paymentId) rows, db\<lparr> payments := rows \<rparr>))"

text \<open>
  \<open>failPayment\<close>: \<open>UPDATE payments SET status = 'failed' WHERE id = paymentId\<close>. The
  parameter \<open>_reason\<close> is accepted and not used.
\<close>

definition failPayment :: "uuid \<Rightarrow> string option \<Rightarrow> Database \<Rightarrow> Payment option \<times> Database" where
  "failPayment paymentId reason db =
     (let rows = map (\<lambda>p. if pay_id p = paymentId then p\<lparr> status := Failed \<rparr> else p) (payments db)
      in (find (\<lambda>p. pay_id p = paymentId) rows, db\<lparr> payments := rows \<rparr>))"

definition getPaymentById :: "uuid \<Rightarrow> Database \<Rightarrow> Payment option" where
  "getPaymentById paymentId db = find (\<lambda>p. pay_id p = paymentId) (payments db)"

section \<open>Access Ledger (services/accessGrant.ts)\<close>

definition grantsFor :: "int \<Rightarrow> string \<Rightarrow> Database \<Rightarrow> AccessGrant list" where
  "grantsFor blockId normalizedWallet db =
     filter (\<lambda>g. ag_blockId g = blockId \<and> ag_payerWallet g = normalizedWallet) (accessGrants db)"

definition hasAccess :: "int \<Rightarrow> string \<Rightarrow> Database \<Rightarrow> bool" where
  "hasAccess blockId wallet db =
     (if wallet = [] then False
      else take 1 (grantsFor blockId (toLowerCase wallet) db) \<noteq> [])"

definition grantAccess :: "timestamp \<Rightarrow> int \<Rightarrow> string \<Rightarrow> uuid option \<Rightarrow> Database \<Rightarrow> AccessGrant \<times> Database" where
  "grantAccess now blockId wallet payId db =
     (let normalizedWallet = toLowerCase wallet in
      case take 1 (grantsFor blockId normalizedWallet db) of
        g # _ \<Rightarrow> (g, db)
      | [] \<Rightarrow>
          (let created = \<lparr> ag_id = nextUuid db,
                            ag_blockId = blockId,
                            ag_payerWallet = normalizedWallet,
                            ag_paymentId = payId,
                            grantedAt = now \<rparr>
           in (created, db\<lparr> accessGrants := accessGrants db @ [created],
                             nextUuid := Suc (nextUuid db) \<rparr>)))"

definition revokeAccess :: "int \<Rightarrow> string \<Rightarrow> Database \<Rightarrow> bool \<times> Database" where
  "revokeAccess blockId wallet db =
     (let normalizedWallet = toLowerCase wallet;
          removed = grantsFor blockId normalizedWallet db
      in (removed \<noteq> [],
          db\<lparr> accessGrants :=
                filter (\<lambda>g. \<not> (ag_blockId g = blockId \<and> ag_payerWallet g = normalizedWallet))
                       (accessGrants db) \<rparr>))"

record BlockAccessStatus =
  bas_blockId :: int
  isPaywalled :: bool
  bas_hasAccess :: bool
  bas_priceUsdc :: "string option"
  bas_recipientWallet :: "string option"

definition getBlockAccessStatus :: "int \<Rightarrow> string option \<Rightarrow> Database \<Rightarrow> BlockAccessStatus" where
  "getBlockAccessStatus blockId wallet db =
     (case take 1 (filter (\<lambda>p. pw_blockId p = blockId \<and> active p) (paywalls db)) of
        [] \<Rightarrow> \<lparr> bas_blockId = blockId, isPaywalled = False, bas_hasAccess = True,
                bas_priceUsdc = None, bas_recipientWallet = None \<rparr>
      | pw # _ \<Rightarrow>
          (let walletHasAccess =
                 (if truthy wallet then hasAccess blockId (the wallet) db else False)
           in \<lparr> bas_blockId = blockId, isPaywalled = True, bas_hasAccess = walletHasAccess,
                bas_priceUsdc = Some (priceUsdc pw),
                bas_recipientWallet = Some (recipientWallet pw) \<rparr>))"

section \<open>JavaScript numbers\<close>

text \<open>
  The price checks and the unit conversion go through JavaScript's \<open>Number\<close> type
  (\<open>parseFloat\<close>, \<open>*\<close>, \<open><\<close>, \<open>toFixed\<close>), which is IEEE-754 binary floating point.
  These primitives are parameters of the model: \<open>'n\<close> is the type of numbers, and the
  functions below are defined from the source for any implementation of the primitives.
\<close>

record 'n JsNumber =
  js_parseFloat :: "string \<Rightarrow> 'n"
  js_literal :: "int \<Rightarrow> 'n"
  js_mul :: "'n \<Rightarrow> 'n \<Rightarrow> 'n"
  js_lt :: "'n \<Rightarrow> 'n \<Rightarrow> bool"
  js_toFixed :: "'n \<Rightarrow> nat \<Rightarrow> string"

text \<open>\<open>usdcToAtomic\<close>: \<open>(parseFloat(usdc) * 1_000_000).toFixed(0)\<close>.\<close>

definition usdcToAtomic :: "'n JsNumber \<Rightarrow> string \<Rightarrow> string" where
  "usdcToAtomic N usdc =
     js_toFixed N (js_mul N (js_parseFloat N usdc) (js_literal N 1000000)) 0"

section \<open>Paywall Registry (services/paywall.ts, src/unnamed/part_009)\<close>

definition MIN_PRICE_USDC :: string where
  "MIN_PRICE_USDC = ''0.01''"

datatype PaywallErrorCode =
  INVALID_PRICE | INVALID_WALLET | NO_WALLET | ALREADY_EXISTS | NOT_FOUND | FORBIDDEN | NOT_OWNER

datatype PaywallError = PaywallError string PaywallErrorCode

fun code :: "PaywallError \<Rightarrow> PaywallErrorCode" where
  "code (PaywallError message c) = c"

record UpdatePaywallParams =
  up_priceUsdc :: "string option"
  up_recipientWallet :: "string option"
  up_active :: "bool option"

record PaywallWithOwner = Paywall +
  ownerUsername :: "string option"
  ownerSlug :: "string option"

text \<open>\<open>isValidEthereumAddress\<close> (services/user.ts): the pattern \<open>^0x[a-fA-F0-9]{40}$\<close>.\<close>

definition isHexDigit :: "char \<Rightarrow> bool" where
  "isHexDigit c =
     ((CHR ''a'' \<le> c \<and> c \<le> CHR ''f'') \<or> (CHR ''A'' \<le> c \<and> c \<le> CHR ''F'')
      \<or> (CHR ''0'' \<le> c \<and> c \<le> CHR ''9''))"

definition isValidEthereumAddress :: "string \<Rightarrow> bool" where
  "isValidEthereumAddress address =
     (length address = 42 \<and> take 2 address = ''0x'' \<and> list_all isHexDigit (drop 2 address))"

text \<open>
  \<open>getPaywallByBlockId\<close>: the first paywall row of the block, left-joined with its
  owner's user row; the \<open>active\<close> flag is not part of the condition.
\<close>

definition getPaywallByBlockId :: "int \<Rightarrow> Database \<Rightarrow> PaywallWithOwner option" where
  "getPaywallByBlockId blockId db =
     (case find (\<lambda>p. pw_blockId p = blockId) (paywalls db) of
        None \<Rightarrow> None
      | Some p \<Rightarrow>
          (let owner = find (\<lambda>u. Some (user_id u) = ownerUserId p) (users db)
           in Some (Paywall.extend p
                     (PaywallWithOwner.fields
                        (case owner of None \<Rightarrow> None | Some u \<Rightarrow> arenaUsername u)
                        (case owner of None \<Rightarrow> None | Some u \<Rightarrow> arenaSlug u)))))"

definition getPaywallsByOwner :: "uuid \<Rightarrow> Database \<Rightarrow> Paywall list" where
  "getPaywallsByOwner userId db = filter (\<lambda>p. ownerUserId p = Some userId) (paywalls db)"

text \<open>
  The \<open>set\<close> clause of \<open>updatePaywall\<close>: the fields present in \<open>updates\<close>, and
  \<open>updatedAt\<close>.
\<close>

definition applyUpdates :: "timestamp \<Rightarrow> UpdatePaywallParams \<Rightarrow> Paywall \<Rightarrow> Paywall" where
  "applyUpdates now updates p =
     p\<lparr> priceUsdc := (case up_priceUsdc updates of None \<Rightarrow> priceUsdc p | Some v \<Rightarrow> v),
        recipientWallet := (case up_recipientWallet updates of None \<Rightarrow> recipientWallet p | Some v \<Rightarrow> v),
        active := (case up_active updates of None \<Rightarrow> active p | Some v \<Rightarrow> v),
        pw_updatedAt := now \<rparr>"

text \<open>
  The three owner operations return the error thrown, or the result, together with the
  database after the call.
\<close>

definition updatePaywall ::
  "'n JsNumber \<Rightarrow> timestamp \<Rightarrow> int \<Rightarrow> uuid \<Rightarrow> UpdatePaywallParams \<Rightarrow> Database
     \<Rightarrow> (PaywallError + Paywall option) \<times> Database" where
  "updatePaywall N now blockId requester updates db =
     (case getPaywallByBlockId blockId db of
        None \<Rightarrow> (Inl (PaywallError ''Paywall not found'' NOT_FOUND), db)
      | Some existing \<Rightarrow>
          if ownerUserId existing \<noteq> Some requester
          then (Inl (PaywallError ''You do not own this paywall'' FORBIDDEN), db)
          else if (case up_priceUsdc updates of
                     None \<Rightarrow> False
                   | Some price \<Rightarrow> js_lt N (js_parseFloat N price) (js_parseFloat N MIN_PRICE_USDC))
          then (Inl (PaywallError (''Minimum price is '' @ MIN_PRICE_USDC @ '' USDC'') INVALID_PRICE), db)
          else if (case up_recipientWallet updates of
                     None \<Rightarrow> False
                   | Some wallet \<Rightarrow> \<not> isValidEthereumAddress wallet)
          then (Inl (PaywallError ''Invalid recipient wallet address'' INVALID_WALLET), db)
          else
            (let rows = map (\<lambda>p. if pw_blockId p = blockId then applyUpdates now updates p else p)
                            (paywalls db)
             in (Inr (find (\<lambda>p. pw_blockId p = blockId) rows), db\<lparr> paywalls := rows \<rparr>)))"

definition deactivatePaywall ::
  "timestamp \<Rightarrow> int \<Rightarrow> uuid \<Rightarrow> Database \<Rightarrow> (PaywallError + unit) \<times> Database" where
  "deactivatePaywall now blockId requester db =
     (case getPaywallByBlockId blockId db of
        None \<Rightarrow> (Inl (PaywallError ''Paywall not found'' NOT_FOUND), db)
      | Some existing \<Rightarrow>
          if ownerUserId existing \<noteq> Some requester
          then (Inl (PaywallError ''You do not own this paywall'' FORBIDDEN), db)
          else (Inr (),
                db\<lparr> paywalls := map (\<lambda>p. if pw_blockId p = blockId
                                             then p\<lparr> active := False, pw_updatedAt := now \<rparr>
                                             else p) (paywalls db) \<rparr>))"

definition deletePaywall ::
  "int \<Rightarrow> uuid \<Rightarrow> Database \<Rightarrow> (PaywallError + unit) \<times> Database" where
  "deletePaywall blockId requester db =
     (case getPaywallByBlockId blockId db of
        None \<Rightarrow> (Inl (PaywallError ''Paywall not found'' NOT_FOUND), db)
      | Some existing \<Rightarrow>
          if ownerUserId existing \<noteq> Some requester
          then (Inl (PaywallError ''You do not own this paywall'' FORBIDDEN), db)
          else (Inr (), db\<lparr> paywalls := filter (\<lambda>p. pw_blockId p \<noteq> blockId) (paywalls db) \<rparr>))"

text \<open>
  The status code the route handler answers with for a \<open>PaywallError\<close> of
  \<open>DELETE /paywall/:blockId\<close>.
\<close>

definition deleteStatusCode :: "PaywallErrorCode \<Rightarrow> nat" where
  "deleteStatusCode c = (if c = FORBIDDEN then 403 else if c = NOT_FOUND then 404 else 400)"

text \<open>
  \<open>getPaywallsForBlocks\<close>. Every \<open>db.select\<close> the function issues is written to a log,
  returned beside the map: first one query for all active paywalls, whose rows are not read,
  then the loop with one query for each block id.
\<close>

datatype PaywallQuery = SelectAllActive | SelectActiveByBlock int

record PaywallInfo =
  pi_priceUsdc :: string
  pi_active :: bool

fun lookupEach ::
  "Database \<Rightarrow> int list \<Rightarrow> (int \<rightharpoonup> PaywallInfo) \<times> PaywallQuery list
     \<Rightarrow> (int \<rightharpoonup> PaywallInfo) \<times> PaywallQuery list" where
  "lookupEach db [] acc = acc"
| "lookupEach db (i # ids) (paywallMap, queries) =
     (let paywall = take 1 (filter (\<lambda>p. pw_blockId p = i \<and> active p) (paywalls db))
      in lookupEach db ids
           (case paywall of
              [] \<Rightarrow> paywallMap
            | p # _ \<Rightarrow> paywallMap(i \<mapsto> \<lparr> pi_priceUsdc = priceUsdc p, pi_active = active p \<rparr>),
            queries @ [SelectActiveByBlock i]))"

definition getPaywallsForBlocks ::
  "int list \<Rightarrow> Database \<Rightarrow> (int \<rightharpoonup> PaywallInfo) \<times> PaywallQuery list" where
  "getPaywallsForBlocks blockIds db =
     (if blockIds = [] then (Map.empty, [])
      else lookupEach db blockIds (Map.empty, [SelectAllActive]))"

section \<open>Settlement Coordinator (the x402 middleware, src/unnamed/part_006)\<close>

text \<open>
  The x402 library and the facilitator behind it are external. \<open>X402Server\<close> holds what
  they answer: whether \<open>getX402Server\<close> rejects, the decoded header (\<open>None\<close> when
  \<open>decodePaymentSignatureHeader\<close> throws), and for \<open>verifyPayment\<close> and \<open>settlePayment\<close>
  either the value thrown or the response.
\<close>

datatype Thrown = ErrorObject string | OtherValue

record PaymentRequirements =
  req_scheme :: string
  req_network :: string
  req_amount :: string
  req_payTo :: string
  req_maxTimeoutSeconds :: nat

record PaymentPayload =
  accepted :: PaymentRequirements
  payloadPayer :: "string option"

record VerifyResponse =
  isValid :: bool
  invalidReason :: "string option"
  vr_payer :: "string option"

record SettleResponse =
  sr_success :: bool
  errorReason :: "string option"
  transaction :: string
  sr_payer :: "string option"

record X402Server =
  initFailure :: "Thrown option"
  decodePaymentSignatureHeader :: "string \<Rightarrow> PaymentPayload option"
  verifyPayment :: "PaymentPayload \<Rightarrow> PaymentRequirements \<Rightarrow> Thrown + VerifyResponse"
  serverSettlePayment :: "PaymentPayload \<Rightarrow> PaymentRequirements \<Rightarrow> Thrown + SettleResponse"

datatype OracleCall = VerifyCall | SettleCall

record PaymentResult =
  success :: bool
  res_paymentId :: "uuid option"
  res_txHash :: "string option"
  res_payer :: "string option"
  res_error :: "string option"

definition failure :: "string \<Rightarrow> PaymentResult" where
  "failure msg = \<lparr> success = False, res_paymentId = None, res_txHash = None,
                    res_payer = None, res_error = Some msg \<rparr>"

text \<open>
  The \<open>catch\<close> block of \<open>processPayment\<close>: fail the payment, answer with the error's
  message.
\<close>

definition catchBlock ::
  "Thrown \<Rightarrow> Payment \<Rightarrow> Database \<Rightarrow> OracleCall list \<Rightarrow> PaymentResult \<times> Database \<times> OracleCall list" where
  "catchBlock e payment db calls =
     (let (_, db') = failPayment (pay_id payment)
                       (Some (case e of ErrorObject m \<Rightarrow> m | OtherValue \<Rightarrow> ''Unknown error'')) db
      in (failure (case e of ErrorObject m \<Rightarrow> m | OtherValue \<Rightarrow> ''Payment processing failed''),
          db', calls))"

text \<open>
  The two database writes that \<open>processPayment\<close> awaits after a successful settlement.
  \<open>tx_hash\<close> is \<open>varchar(66)\<close> and \<open>payer_wallet\<close> is \<open>varchar(42)\<close>: the database
  raises an error when the value to store is longer, and the awaited call throws it.
  \<open>settlePayment\<close> and \<open>grantAccess\<close> above are the calls the database accepts.
  \<open>grantAccess\<close> writes only when the pair has no grant yet.
\<close>

definition valueTooLong :: "nat \<Rightarrow> Thrown" where
  "valueTooLong width =
     ErrorObject (if width = 42 then ''value too long for type character varying(42)''
                  else ''value too long for type character varying(66)'')"

definition awaitSettlePayment ::
  "timestamp \<Rightarrow> uuid \<Rightarrow> string \<Rightarrow> Database \<Rightarrow> Thrown + (Payment option \<times> Database)" where
  "awaitSettlePayment now paymentId tx db =
     (if 66 < length tx then Inl (valueTooLong 66)
      else Inr (settlePayment now paymentId tx db))"

definition awaitGrantAccess ::
  "timestamp \<Rightarrow> int \<Rightarrow> string \<Rightarrow> uuid option \<Rightarrow> Database \<Rightarrow> Thrown + (AccessGrant \<times> Database)" where
  "awaitGrantAccess now blockId wallet payId db =
     (if take 1 (grantsFor blockId (toLowerCase wallet) db) = [] \<and> 42 < length (toLowerCase wallet)
      then Inl (valueTooLong 42)
      else Inr (grantAccess now blockId wallet payId db))"

text \<open>
  The \<open>try\<close> block of \<open>processPayment\<close>, with its \<open>catch\<close>. The \<open>catch\<close> takes what
  the facilitator calls throw and what the two writes after the settlement throw; when the
  grant cannot be written, it runs on the database in which the payment is already settled.
\<close>

definition tryBlock ::
  "X402Server \<Rightarrow> timestamp \<Rightarrow> PaymentPayload \<Rightarrow> Payment \<Rightarrow> string \<Rightarrow> int \<Rightarrow> Database
     \<Rightarrow> PaymentResult \<times> Database \<times> OracleCall list" where
  "tryBlock server now paymentPayload payment payerWallet blockId db =
     (case verifyPayment server paymentPayload (accepted paymentPayload) of
        Inl e \<Rightarrow> catchBlock e payment db [VerifyCall]
      | Inr verifyResult \<Rightarrow>
          if \<not> isValid verifyResult then
            (let (_, db') = failPayment (pay_id payment) (invalidReason verifyResult) db
             in (failure (orDefault (invalidReason verifyResult) ''Payment verification failed''),
                 db', [VerifyCall]))
          else
            (case serverSettlePayment server paymentPayload (accepted paymentPayload) of
               Inl e \<Rightarrow> catchBlock e payment db [VerifyCall, SettleCall]
             | Inr settleResult \<Rightarrow>
                 if \<not> sr_success settleResult then
                   (let (_, db') = failPayment (pay_id payment) (errorReason settleResult) db
                    in (failure (orDefault (errorReason settleResult) ''Payment settlement failed''),
                        db', [VerifyCall, SettleCall]))
                 else
                   (case awaitSettlePayment now (pay_id payment) (transaction settleResult) db of
                      Inl e \<Rightarrow> catchBlock e payment db [VerifyCall, SettleCall]
                    | Inr (_, db') \<Rightarrow>
                        (let actualPayer =
                               orDefault (orElse (sr_payer settleResult) (vr_payer verifyResult))
                                 payerWallet
                         in case awaitGrantAccess now blockId actualPayer (Some (pay_id payment)) db' of
                              Inl e \<Rightarrow> catchBlock e payment db' [VerifyCall, SettleCall]
                            | Inr (_, db'') \<Rightarrow>
                                (\<lparr> success = True,
                                   res_paymentId = Some (pay_id payment),
                                   res_txHash = Some (transaction settleResult),
                                   res_payer = Some actualPayer,
                                   res_error = None \<rparr>,
                                 db'', [VerifyCall, SettleCall])))))"

text \<open>
  Neither of the two writes after a successful settlement raises: the transaction reference
  fits its column, and the payer to grant has a grant already or fits its column.
\<close>

definition writesSucceed ::
  "SettleResponse \<Rightarrow> VerifyResponse \<Rightarrow> string \<Rightarrow> int \<Rightarrow> Database \<Rightarrow> bool" where
  "writesSucceed settleResult verifyResult payerWallet blockId db =
     (let actualPayer =
            toLowerCase (orDefault (orElse (sr_payer settleResult) (vr_payer verifyResult))
                           payerWallet)
      in length (transaction settleResult) \<le> 66
         \<and> (grantsFor blockId actualPayer db \<noteq> [] \<or> length actualPayer \<le> 42))"

text \<open>
  \<open>processPayment\<close>. The result is the error that leaves the function (\<open>getX402Server\<close>
  rejecting) or the \<open>PaymentResult\<close> returned, then the database after the call, then
  the calls made to the facilitator, in order.
\<close>

definition processPayment ::
  "'n JsNumber \<Rightarrow> X402Server \<Rightarrow> timestamp \<Rightarrow> string \<Rightarrow> PaywallWithOwner \<Rightarrow> int \<Rightarrow> string option
     \<Rightarrow> Database \<Rightarrow> (Thrown + PaymentResult) \<times> Database \<times> OracleCall list" where
  "processPayment N server now paymentHeader paywall blockId wallet db =
     (case initFailure server of
        Some e \<Rightarrow> (Inl e, db, [])
      | None \<Rightarrow>
     (case decodePaymentSignatureHeader server paymentHeader of
        None \<Rightarrow> (Inr (failure ''Invalid payment header format''), db, [])
      | Some paymentPayload \<Rightarrow>
          (let acceptedRequirements = accepted paymentPayload;
               expectedAmount = usdcToAtomic N (priceUsdc paywall)
           in if req_amount acceptedRequirements \<noteq> expectedAmount then
                (Inr (failure (''Payment amount mismatch. Expected '' @ expectedAmount
                                @ '', got '' @ req_amount acceptedRequirements)), db, [])
              else if toLowerCase (req_payTo acceptedRequirements)
                        \<noteq> toLowerCase (recipientWallet paywall) then
                (Inr (failure ''Payment recipient mismatch''), db, [])
              else
                (let payerWallet = orDefault (orElse wallet (payloadPayer paymentPayload)) ''unknown'';
                     (payment, db') = recordPayment now
                                        \<lparr> rp_paywallId = pw_id paywall,
                                          rp_payerWallet = payerWallet,
                                          rp_amountUsdc = priceUsdc paywall,
                                          rp_payerUserId = None \<rparr> db;
                     (r, db'', calls) = tryBlock server now paymentPayload payment payerWallet
                                          blockId db'
                 in (Inr r, db'', calls)))))"

section \<open>Example data\<close>

text \<open>
  The scenario of the specification's end-to-end example: block 42 is paywalled at
  \<open>0.050000\<close> USDC, which is \<open>50000\<close> minor units. \<open>exampleNumber\<close> answers as
  JavaScript does on the strings of the scenario: \<open>parseFloat("0.050000")\<close> is \<open>0.05\<close>,
  \<open>0.05 * 1000000\<close> is \<open>50000\<close> and \<open>(50000).toFixed(0)\<close> is \<open>"50000"\<close>.
\<close>

definition exampleNumber :: "rat JsNumber" where
  "exampleNumber =
     \<lparr> js_parseFloat = (\<lambda>s. if s = ''0.050000'' then 1 / 20
                              else if s = ''0.01'' then 1 / 100
                              else if s = ''0.005'' then 1 / 200 else 0),
       js_literal = of_int,
       js_mul = (\<lambda>a b. a * b),
       js_lt = (\<lambda>a b. a < b),
       js_toFixed = (\<lambda>x digits. if x = 50000 \<and> digits = 0 then ''50000'' else ''0'') \<rparr>"

definition exampleRow :: Paywall where
  "exampleRow =
     \<lparr> pw_id = 1, pw_blockId = 42, ownerUserId = Some 7, priceUsdc = ''0.050000'',
       recipientWallet = ''0xAbCdEf0123456789aBcDeF0123456789abcdef01'', active = True,
       pw_createdAt = 100, pw_updatedAt = 100 \<rparr>"

definition examplePaywall :: PaywallWithOwner where
  "examplePaywall =
     \<lparr> pw_id = 1, pw_blockId = 42, ownerUserId = Some 7, priceUsdc = ''0.050000'',
       recipientWallet = ''0xAbCdEf0123456789aBcDeF0123456789abcdef01'', active = True,
       pw_createdAt = 100, pw_updatedAt = 100, ownerUsername = None, ownerSlug = None \<rparr>"

definition exampleDb :: Database where
  "exampleDb = \<lparr> users = [], paywalls = [exampleRow], payments = [], accessGrants = [],
                  nextUuid = 10 \<rparr>"

definition examplePayload :: PaymentPayload where
  "examplePayload =
     \<lparr> accepted = \<lparr> req_scheme = ''exact'', req_network = ''eip155:8453'',
                     req_amount = ''50000'',
                     req_payTo = ''0xabcdef0123456789abcdef0123456789abcdef01'',
                     req_maxTimeoutSeconds = 300 \<rparr>,
       payloadPayer = None \<rparr>"

definition underpaidPayload :: PaymentPayload where
  "underpaidPayload = examplePayload\<lparr> accepted := (accepted examplePayload)\<lparr> req_amount := ''40000'' \<rparr> \<rparr>"

text \<open>A facilitator that decodes two headers and gives fixed answers to verify and settle.\<close>

definition exampleServer ::
  "(Thrown + VerifyResponse) \<Rightarrow> (Thrown + SettleResponse) \<Rightarrow> X402Server" where
  "exampleServer v s =
     \<lparr> initFailure = None,
       decodePaymentSignatureHeader =
         (\<lambda>h. if h = ''proof'' then Some examplePayload
              else if h = ''underpaid'' then Some underpaidPayload else None),
       verifyPayment = (\<lambda>_ _. v),
       serverSettlePayment = (\<lambda>_ _. s) \<rparr>"

definition verifiedResponse :: "Thrown + VerifyResponse" where
  "verifiedResponse = Inr \<lparr> isValid = True, invalidReason = None, vr_payer = None \<rparr>"

definition settledResponse :: "Thrown + SettleResponse" where
  "settledResponse =
     Inr \<lparr> sr_success = True, errorReason = None, transaction = ''0xTxHash'', sr_payer = None \<rparr>"



section \<open>Amounts as integers\<close>

text \<open>
  The integer that an amount string denotes in minor units: a non-empty string of decimal
  digits, read in base ten. Any other string denotes no amount.
\<close>

definition isDigit :: "char \<Rightarrow> bool" where
  "isDigit c = (CHR ''0'' \<le> c \<and> c \<le> CHR ''9'')"

definition digitValue :: "char \<Rightarrow> nat" where
  "digitValue c = of_char c - 48"

definition minorUnits :: "string \<Rightarrow> nat option" where
  "minorUnits s =
     (if s \<noteq> [] \<and> list_all isDigit s
      then Some (foldl (\<lambda>n c. 10 * n + digitValue c) 0 s) else None)"

section \<open>Sequences of payment store operations\<close>

text \<open>
  The operations the payment store exposes that write a payment row, as data, so that a
  sequence of calls can be run. \<open>statusOf\<close> reads the status of the payment with a given
  id, through \<open>getPaymentById\<close>.
\<close>

datatype StoreOp =
  RecordPayment timestamp RecordPaymentParams
| SettlePayment timestamp uuid string
| FailPayment uuid "string option"

fun applyOp :: "StoreOp \<Rightarrow> Database \<Rightarrow> Database" where
  "applyOp (RecordPayment now params) db = snd (recordPayment now params db)"
| "applyOp (SettlePayment now paymentId tx) db = snd (settlePayment now paymentId tx db)"
| "applyOp (FailPayment paymentId reason) db = snd (failPayment paymentId reason db)"

definition runOps :: "StoreOp list \<Rightarrow> Database \<Rightarrow> Database" where
  "runOps ops db = foldl (\<lambda>d op. applyOp op d) db ops"

definition statusOf :: "uuid \<Rightarrow> Database \<Rightarrow> PaymentStatus option" where
  "statusOf paymentId db = map_option status (getPaymentById paymentId db)"

text \<open>
  The changes of one payment's status that one store operation can make: a payment that
  does not exist stays so or appears as pending; a pending payment stays or becomes
  settled or failed; a settled or failed payment is settled or failed afterwards.
\<close>

fun storeStep :: "PaymentStatus option \<Rightarrow> PaymentStatus option \<Rightarrow> bool" where
  "storeStep None after = (after = None \<or> after = Some Pending)"
| "storeStep (Some Pending) after =
     (after = Some Pending \<or> after = Some Settled \<or> after = Some Failed)"
| "storeStep (Some Settled) after = (after = Some Settled \<or> after = Some Failed)"
| "storeStep (Some Failed) after = (after = Some Failed \<or> after = Some Settled)"


definition exampleParams :: RecordPaymentParams where
  "exampleParams = \<lparr> rp_paywallId = 1, rp_payerWallet = ''0xPayer'', rp_amountUsdc = ''0.050000'',
                      rp_payerUserId = None \<rparr>"

section \<open>What a batch lookup is to return\<close>

text \<open>
  The entry the specification asks of \<open>batchLookup\<close> for one block id: price and active
  flag of the block's active paywall, if it has one.
\<close>

definition activeInfo :: "Database \<Rightarrow> int \<Rightarrow> PaywallInfo option" where
  "activeInfo db i =
     (case find (\<lambda>p. pw_blockId p = i \<and> active p) (paywalls db) of
        None \<Rightarrow> None
      | Some p \<Rightarrow> Some \<lparr> pi_priceUsdc = priceUsdc p, pi_active = True \<rparr>)"

section \<open>Facts about the payment store\<close>

lemma update_fresh:
  assumes "\<forall>p\<in>set ps. pay_id p \<noteq> i"
  shows "map (\<lambda>p. if pay_id p = i then f p else p) ps = ps"
  using assms by (induction ps) auto

lemma payments_recordPayment:
  "payments (snd (recordPayment now params db)) = payments db @ [fst (recordPayment now params db)]"
  by (simp add: recordPayment_def Let_def)

lemma pay_id_recordPayment: "pay_id (fst (recordPayment now params db)) = nextUuid db"
  by (simp add: recordPayment_def Let_def)

lemma status_recordPayment: "status (fst (recordPayment now params db)) = Pending"
  by (simp add: recordPayment_def Let_def)

lemma payments_failPayment:
  "payments (snd (failPayment i reason db)) =
     map (\<lambda>p. if pay_id p = i then p\<lparr> status := Failed \<rparr> else p) (payments db)"
  by (simp add: failPayment_def Let_def)

lemma payments_settlePayment:
  "payments (snd (settlePayment now i tx db)) =
     map (\<lambda>p. if pay_id p = i then p\<lparr> status := Settled, txHash := Some tx, settledAt := Some now \<rparr> else p) (payments db)"
  by (simp add: settlePayment_def Let_def)

lemma payments_grantAccess: "payments (snd (grantAccess now b w pid db)) = payments db"
  by (simp add: grantAccess_def Let_def split: list.splits)

lemma find_append_new:
  "find P (xs @ [x]) = (case find P xs of Some y \<Rightarrow> Some y | None \<Rightarrow> if P x then Some x else None)"
  by (induction xs) auto

lemma find_update:
  "find (\<lambda>p. pay_id p = i) (map (\<lambda>p. if pay_id p = j then f p else p) ps)
     = (if i = j then map_option f (find (\<lambda>p. pay_id p = i) ps)
        else find (\<lambda>p. pay_id p = i) ps)"
  if "\<And>p. pay_id (f p) = pay_id p"
  using that by (induction ps) auto

lemma statusOf_recordPayment:
  "statusOf i (snd (recordPayment now params db))
     = (case statusOf i db of Some s \<Rightarrow> Some s
        | None \<Rightarrow> if i = nextUuid db then Some Pending else None)"
  by (auto simp: statusOf_def getPaymentById_def recordPayment_def Let_def find_append_new
        split: option.splits)

lemma statusOf_settlePayment:
  "statusOf i (snd (settlePayment now j tx db))
     = (if i = j then map_option (\<lambda>_. Settled) (statusOf i db) else statusOf i db)"
  by (simp add: statusOf_def getPaymentById_def settlePayment_def Let_def find_update
        option.map_comp comp_def)

lemma statusOf_failPayment:
  "statusOf i (snd (failPayment j reason db))
     = (if i = j then map_option (\<lambda>_. Failed) (statusOf i db) else statusOf i db)"
  by (simp add: statusOf_def getPaymentById_def failPayment_def Let_def find_update
        option.map_comp comp_def)

lemma storeStep_refl: "storeStep s s"
proof (cases s)
  case None
  then show ?thesis by simp
next
  case (Some st)
  then show ?thesis by (cases st) simp_all
qed

lemma storeStep_keeps: "storeStep (Some st) (Some st)"
  by (rule storeStep_refl)

lemma storeStep_settle: "storeStep (Some st) (Some Settled)"
  by (cases st) simp_all

lemma storeStep_fail: "storeStep (Some st) (Some Failed)"
  by (cases st) simp_all

lemma storeStep_applyOp: "storeStep (statusOf i db) (statusOf i (applyOp op db))"
proof (cases op)
  case (RecordPayment now params)
  then show ?thesis
    by (cases "statusOf i db") (auto simp: statusOf_recordPayment storeStep_keeps)
next
  case (SettlePayment now j tx)
  then show ?thesis
    by (cases "statusOf i db") (auto simp: statusOf_settlePayment storeStep_keeps storeStep_settle)
next
  case (FailPayment j reason)
  then show ?thesis
    by (cases "statusOf i db") (auto simp: statusOf_failPayment storeStep_keeps storeStep_fail)
qed

lemma runOps_snoc: "runOps (ops @ [op]) db = applyOp op (runOps ops db)"
  by (simp add: runOps_def)

lemma terminal_stays_terminal:
  assumes "statusOf i db = Some Settled \<or> statusOf i db = Some Failed"
  shows "statusOf i (runOps ops db) = Some Settled \<or> statusOf i (runOps ops db) = Some Failed"
  using assms
proof (induction ops rule: rev_induct)
  case Nil
  then show ?case by (simp add: runOps_def)
next
  case (snoc op ops)
  then have "statusOf i (runOps ops db) = Some Settled \<or> statusOf i (runOps ops db) = Some Failed"
    by simp
  with storeStep_applyOp [of i "runOps ops db" op] show ?case
    by (auto simp: runOps_snoc)
qed

section \<open>Facts about the settlement coordinator\<close>

lemma toLowerCase_unknown: "toLowerCase ''unknown'' = ''unknown''"
  by code_simp

lemma payments_catchBlock:
  "payments (fst (snd (catchBlock e c db calls))) =
     map (\<lambda>p. if pay_id p = pay_id c then p\<lparr> status := Failed \<rparr> else p) (payments db)"
  by (simp add: catchBlock_def case_prod_beta payments_failPayment)

lemma success_catchBlock: "\<not> success (fst (catchBlock e c db calls))"
  by (simp add: catchBlock_def case_prod_beta failure_def)

lemma success_failure: "\<not> success (failure m)"
  by (simp add: failure_def)

lemma take1_nonempty: "take 1 xs \<noteq> [] \<longleftrightarrow> xs \<noteq> []"
  by (cases xs) auto

lemma awaitSettlePayment_Inr:
  "awaitSettlePayment now i tx db = Inr x \<longleftrightarrow> length tx \<le> 66 \<and> x = settlePayment now i tx db"
  by (auto simp: awaitSettlePayment_def)

lemma awaitSettlePayment_Inl:
  "awaitSettlePayment now i tx db = Inl e \<longleftrightarrow> 66 < length tx \<and> e = valueTooLong 66"
  by (auto simp: awaitSettlePayment_def)

lemma awaitGrantAccess_Inr:
  "awaitGrantAccess now b w pid db = Inr x \<longleftrightarrow>
     (grantsFor b (toLowerCase w) db \<noteq> [] \<or> length (toLowerCase w) \<le> 42)
     \<and> x = grantAccess now b w pid db"
  using take1_nonempty [of "grantsFor b (toLowerCase w) db"]
  by (auto simp: awaitGrantAccess_def)

lemma awaitGrantAccess_Inl:
  "awaitGrantAccess now b w pid db = Inl e \<longleftrightarrow>
     grantsFor b (toLowerCase w) db = [] \<and> 42 < length (toLowerCase w) \<and> e = valueTooLong 42"
  using take1_nonempty [of "grantsFor b (toLowerCase w) db"]
  by (auto simp: awaitGrantAccess_def)

lemma grantsFor_settlePayment:
  "grantsFor b w (snd (settlePayment now i tx db)) = grantsFor b w db"
  by (simp add: grantsFor_def settlePayment_def Let_def)

lemma tryBlock_terminal:
  assumes db: "payments db = ps @ [c]" and fresh: "\<forall>p\<in>set ps. pay_id p \<noteq> pay_id c"
  shows "\<exists>c'. payments (fst (snd (tryBlock server now pp c w b db))) = ps @ [c']
            \<and> pay_id c' = pay_id c \<and> pay_payerWallet c' = pay_payerWallet c
            \<and> status c' = (if success (fst (tryBlock server now pp c w b db)) then Settled else Failed)"
  using db update_fresh [OF fresh]
  by (auto simp: tryBlock_def Let_def case_prod_beta payments_catchBlock success_catchBlock success_failure
        payments_failPayment payments_settlePayment payments_grantAccess
        awaitSettlePayment_Inr awaitGrantAccess_Inr
        split: sum.splits)


lemma processPayment_accepted:
  assumes init: "initFailure server = None"
    and dec: "decodePaymentSignatureHeader server header = Some pp"
    and amount: "req_amount (accepted pp) = usdcToAtomic N (priceUsdc paywall)"
    and payTo: "toLowerCase (req_payTo (accepted pp)) = toLowerCase (recipientWallet paywall)"
  shows "processPayment N server now header paywall blockId wallet db =
     (let payerWallet = orDefault (orElse wallet (payloadPayer pp)) ''unknown'';
          rec = recordPayment now \<lparr> rp_paywallId = pw_id paywall, rp_payerWallet = payerWallet,
                                    rp_amountUsdc = priceUsdc paywall, rp_payerUserId = None \<rparr> db;
          t = tryBlock server now pp (fst rec) payerWallet blockId (snd rec)
      in (Inr (fst t), fst (snd t), snd (snd t)))"
  using assms by (simp add: processPayment_def Let_def case_prod_beta)

lemma example_expectedAmount: "usdcToAtomic exampleNumber (priceUsdc examplePaywall) = ''50000''"
  by (simp add: usdcToAtomic_def exampleNumber_def examplePaywall_def)

lemma example_payTo:
  "toLowerCase (req_payTo (accepted examplePayload)) = toLowerCase (recipientWallet examplePaywall)"
  by code_simp



lemma tryBlock_success:
  assumes "verifyPayment server pp (accepted pp) = Inr v" and "isValid v"
    and "serverSettlePayment server pp (accepted pp) = Inr s" and "sr_success s"
    and "writesSucceed s v w b db"
  shows "tryBlock server now pp c w b db =
           (\<lparr> success = True, res_paymentId = Some (pay_id c),
              res_txHash = Some (transaction s),
              res_payer = Some (orDefault (orElse (sr_payer s) (vr_payer v)) w),
              res_error = None \<rparr>,
            snd (grantAccess now b (orDefault (orElse (sr_payer s) (vr_payer v)) w)
                   (Some (pay_id c)) (snd (settlePayment now (pay_id c) (transaction s) db))),
            [VerifyCall, SettleCall])"
  using assms
  by (auto simp: tryBlock_def case_prod_beta Let_def writesSucceed_def
        awaitSettlePayment_Inr awaitSettlePayment_Inl awaitGrantAccess_Inr awaitGrantAccess_Inl
        grantsFor_settlePayment
        split: sum.splits)


lemma orDefault_falsy: "\<not> truthy a \<Longrightarrow> orDefault a d = d"
  by (auto simp: truthy_def orDefault_def split: option.splits)

lemma orElse_falsy: "\<not> truthy a \<Longrightarrow> orElse a b = b"
  by (simp add: orElse_def)

lemma pending_after_update:
  assumes "p \<in> set (map (\<lambda>q. if pay_id q = i then f q else q) ps)" and "status p = Pending"
    and "\<And>q. status (f q) \<noteq> Pending"
  shows "p \<in> set ps \<and> pay_id p \<noteq> i"
  using assms by (auto split: if_splits)

lemma tryBlock_no_new_pending:
  assumes "p \<in> set (payments (fst (snd (tryBlock server now pp c w b db))))"
    and "status p = Pending"
  shows "p \<in> set (payments db) \<and> pay_id p \<noteq> pay_id c"
proof -
  have fail: "p \<in> set (payments d) \<and> pay_id p \<noteq> pay_id c"
    if "p \<in> set (payments (snd (failPayment (pay_id c) reason d)))" for reason d
    using that assms(2) unfolding payments_failPayment
    by (intro pending_after_update [where f = "\<lambda>q. q\<lparr> status := Failed \<rparr>"]) simp_all
  have settle: "p \<in> set (payments d) \<and> pay_id p \<noteq> pay_id c"
    if "p \<in> set (payments (snd (settlePayment now (pay_id c) tx d)))" for tx d
    using that assms(2) unfolding payments_settlePayment
    by (intro pending_after_update
          [where f = "\<lambda>q. q\<lparr> status := Settled, txHash := Some tx, settledAt := Some now \<rparr>"])
       simp_all
  have both: "p \<in> set (payments d) \<and> pay_id p \<noteq> pay_id c"
    if "p \<in> set (payments (snd (failPayment (pay_id c) reason
                                   (snd (settlePayment now (pay_id c) tx d)))))" for reason tx d
    using fail [OF that] settle by blast
  from assms(1) show ?thesis
    by (auto simp: tryBlock_def catchBlock_def Let_def case_prod_beta payments_grantAccess
          awaitSettlePayment_Inr awaitGrantAccess_Inr
          split: sum.splits if_splits dest: both fail settle)
qed

lemma processPayment_no_new_pending:
  assumes "p \<in> set (payments (fst (snd (processPayment N server now header paywall blockId wallet db))))"
    and "status p = Pending"
  shows "p \<in> set (payments db)"
proof -
  have "p \<in> set (payments db)"
    if "p \<in> set (payments (fst (snd (tryBlock server now pp
             (fst (recordPayment now params db)) w blockId (snd (recordPayment now params db))))))"
    for pp params w
  proof -
    from tryBlock_no_new_pending [OF that assms(2)]
    have "p \<in> set (payments db @ [fst (recordPayment now params db)])"
      and "pay_id p \<noteq> pay_id (fst (recordPayment now params db))"
      by (simp_all add: payments_recordPayment)
    then show ?thesis by auto
  qed
  with assms(1) show ?thesis
    by (auto simp: processPayment_def Let_def case_prod_beta split: option.splits if_splits)
qed




section \<open>Facts about the access ledger\<close>

lemma grantsFor_grantAccess:
  "grantsFor b (toLowerCase w) (snd (grantAccess now b w pid db)) \<noteq> []"
proof (cases "take 1 (grantsFor b (toLowerCase w) db)")
  case Nil
  then show ?thesis
    by (simp add: grantAccess_def Let_def grantsFor_def)
next
  case (Cons g gs)
  then have "grantsFor b (toLowerCase w) db \<noteq> []"
    using take1_nonempty by fastforce
  with Cons show ?thesis
    by (simp add: grantAccess_def Let_def)
qed

lemma hasAccess_grantAccess:
  "w \<noteq> [] \<Longrightarrow> hasAccess b w (snd (grantAccess now b w pid db))"
  by (simp add: hasAccess_def take1_nonempty grantsFor_grantAccess)

lemma hasAccess_iff:
  "hasAccess b w db \<longleftrightarrow>
     w \<noteq> [] \<and> (\<exists>g\<in>set (accessGrants db). ag_blockId g = b \<and> ag_payerWallet g = toLowerCase w)"
  by (auto simp: hasAccess_def take1_nonempty grantsFor_def filter_empty_conv)

lemma status_hasAccess:
  "hasAccess b w db \<Longrightarrow> bas_hasAccess (getBlockAccessStatus b (Some w) db)"
  by (auto simp: getBlockAccessStatus_def truthy_def Let_def hasAccess_def split: list.splits)

lemma filter_key_unique:
  assumes "distinct (map f xs)"
  shows "length (filter (\<lambda>x. f x = k) xs) \<le> 1"
  using assms
proof (induction xs)
  case Nil
  then show ?case by simp
next
  case (Cons x xs)
  show ?case
  proof (cases "f x = k")
    case True
    from Cons.prems have "f x \<notin> f ` set xs"
      by simp
    with True have "\<forall>y\<in>set xs. f y \<noteq> k"
      by blast
    then have "filter (\<lambda>x. f x = k) xs = []"
      by (simp add: filter_empty_conv)
    with True show ?thesis by simp
  next
    case False
    with Cons show ?thesis by simp
  qed
qed

lemma grantsFor_unique:
  assumes "distinct (map (\<lambda>g. (ag_blockId g, ag_payerWallet g)) (accessGrants db))"
  shows "length (grantsFor b w db) \<le> 1"
proof -
  have "grantsFor b w db = filter (\<lambda>g. (ag_blockId g, ag_payerWallet g) = (b, w)) (accessGrants db)"
    by (simp add: grantsFor_def)
  with filter_key_unique [OF assms, of "(b, w)"] show ?thesis
    by simp
qed

section \<open>Facts about the paywall registry\<close>

lemma find_unique_row:
  assumes "distinct (map f xs)" and "x \<in> set xs"
  shows "find (\<lambda>y. f y = f x) xs = Some x"
  using assms
proof (induction xs)
  case Nil
  then show ?case by simp
next
  case (Cons y ys)
  show ?case
  proof (cases "y = x")
    case True
    then show ?thesis by simp
  next
    case False
    with Cons.prems have x: "x \<in> set ys" and "f y \<notin> f ` set ys"
      by auto
    then have "f y \<noteq> f x"
      by blast
    with Cons x show ?thesis by simp
  qed
qed

lemma getPaywallByBlockId_owner:
  assumes "distinct (map pw_blockId (paywalls db))" and "p \<in> set (paywalls db)"
  shows "\<exists>existing. getPaywallByBlockId (pw_blockId p) db = Some existing
            \<and> ownerUserId existing = ownerUserId p"
  using find_unique_row [OF assms]
  by (simp add: getPaywallByBlockId_def Let_def Paywall.defs PaywallWithOwner.defs)

lemma absent_is_not_found:
  assumes "\<forall>p\<in>set (paywalls db). pw_blockId p \<noteq> blockId"
  shows "updatePaywall N now blockId requester updates db
           = (Inl (PaywallError ''Paywall not found'' NOT_FOUND), db)
       \<and> deletePaywall blockId requester db
           = (Inl (PaywallError ''Paywall not found'' NOT_FOUND), db)
       \<and> deactivatePaywall now blockId requester db
           = (Inl (PaywallError ''Paywall not found'' NOT_FOUND), db)"
proof -
  from assms have "find (\<lambda>p. pw_blockId p = blockId) (paywalls db) = None"
    by (simp add: find_None_iff)
  then show ?thesis
    by (simp add: getPaywallByBlockId_def updatePaywall_def deletePaywall_def deactivatePaywall_def)
qed

lemma lookupEach_queries:
  "snd (lookupEach db ids (m, qs)) = qs @ map SelectActiveByBlock ids"
  by (induction ids arbitrary: m qs) (simp_all add: Let_def)

lemma getPaywallsForBlocks_queries:
  "snd (getPaywallsForBlocks ids db)
     = (if ids = [] then [] else SelectAllActive # map SelectActiveByBlock ids)"
  by (simp add: getPaywallsForBlocks_def lookupEach_queries)

lemma take1_filter:
  "take (Suc 0) (filter P xs) = (case find P xs of None \<Rightarrow> [] | Some x \<Rightarrow> [x])"
  by (induction xs) auto

lemma lookupEach_map:
  "fst (lookupEach db ids (m, qs)) i
     = (if i \<in> set ids then (case activeInfo db i of None \<Rightarrow> m i | Some v \<Rightarrow> Some v) else m i)"
proof (induction ids arbitrary: m qs)
  case Nil
  then show ?case by simp
next
  case (Cons j ids)
  show ?case
  proof (cases "find (\<lambda>p. pw_blockId p = j \<and> active p) (paywalls db)")
    case None
    then show ?thesis
      by (simp add: Let_def take1_filter Cons.IH activeInfo_def)
  next
    case (Some p)
    then have "active p"
      by (auto dest: find_Some_iff [THEN iffD1])
    with Some show ?thesis
      by (auto simp: Let_def take1_filter Cons.IH activeInfo_def split: option.splits)
  qed
qed

lemma getPaywallsForBlocks_map:
  "fst (getPaywallsForBlocks ids db) i = (if i \<in> set ids then activeInfo db i else None)"
  by (auto simp: getPaywallsForBlocks_def lookupEach_map split: option.splits)

section \<open>Facts about the example data\<close>



lemma underpaid_minorUnits:
  "minorUnits (req_amount (accepted underpaidPayload)) = Some 40000"
  by (simp add: underpaidPayload_def minorUnits_def isDigit_def digitValue_def)

lemma expected_minorUnits: "minorUnits ''50000'' = Some 50000"
  by (simp add: minorUnits_def isDigit_def digitValue_def)

lemma example_getPaywall: "getPaywallByBlockId 42 exampleDb = Some examplePaywall"
  by (simp add: getPaywallByBlockId_def exampleDb_def exampleRow_def examplePaywall_def
        Paywall.defs PaywallWithOwner.defs)

lemma example_wallet_case: "toLowerCase ''0xPAYER'' = toLowerCase ''0xpayer''"
  by code_simp

section \<open>Claims\<close>




text \<open>
  C2. A proof whose accepted amount denotes another integer of minor units than the
  expected amount, or whose accepted payout address differs from the paywall's recipient
  after lower-casing both, is rejected by \<open>processPayment\<close>: the result is a failure
  carrying the amount-mismatch or the recipient-mismatch message, the database is the one
  before the call, so no payment row exists for the attempt, and no call to the facilitator
  was made. The code compares the two amount strings; strings that denote different
  integers are different strings.
\<close>

theorem requirement_mismatch_rejected:
  assumes init: "initFailure server = None"
    and dec: "decodePaymentSignatureHeader server header = Some pp"
    and mismatch:
      "minorUnits (req_amount (accepted pp)) \<noteq> minorUnits (usdcToAtomic N (priceUsdc paywall))
       \<or> toLowerCase (req_payTo (accepted pp)) \<noteq> toLowerCase (recipientWallet paywall)"
  shows "processPayment N server now header paywall blockId wallet db
           = (Inr (failure
                     (if req_amount (accepted pp) \<noteq> usdcToAtomic N (priceUsdc paywall)
                      then ''Payment amount mismatch. Expected ''
                             @ usdcToAtomic N (priceUsdc paywall)
                             @ '', got '' @ req_amount (accepted pp)
                      else ''Payment recipient mismatch'')),
              db, [])"
proof (cases "req_amount (accepted pp) = usdcToAtomic N (priceUsdc paywall)")
  case True
  with mismatch have "toLowerCase (req_payTo (accepted pp)) \<noteq> toLowerCase (recipientWallet paywall)"
    by simp
  with True init dec show ?thesis
    by (simp add: processPayment_def Let_def failure_def)
next
  case False
  with init dec show ?thesis
    by (simp add: processPayment_def Let_def failure_def)
qed

theorem requirement_mismatch_rejected_witness:
  "processPayment exampleNumber (exampleServer verifiedResponse settledResponse) 200 ''underpaid''
     examplePaywall 42 None exampleDb
   = (Inr (failure ''Payment amount mismatch. Expected 50000, got 40000''), exampleDb, [])"
proof -
  let ?server = "exampleServer verifiedResponse settledResponse"
  have init: "initFailure ?server = None"
    by (simp add: exampleServer_def)
  have dec: "decodePaymentSignatureHeader ?server ''underpaid'' = Some underpaidPayload"
    by (simp add: exampleServer_def)
  have mismatch:
    "minorUnits (req_amount (accepted underpaidPayload))
       \<noteq> minorUnits (usdcToAtomic exampleNumber (priceUsdc examplePaywall))
     \<or> toLowerCase (req_payTo (accepted underpaidPayload))
       \<noteq> toLowerCase (recipientWallet examplePaywall)"
    by (simp add: example_expectedAmount underpaid_minorUnits expected_minorUnits)
  have payTo: "toLowerCase (req_payTo (accepted underpaidPayload))
                 = toLowerCase (recipientWallet examplePaywall)"
    by code_simp
  have got: "req_amount (accepted underpaidPayload) = ''40000''"
    by (simp add: underpaidPayload_def)
  from requirement_mismatch_rejected [OF init dec mismatch, of 200 42 None exampleDb]
  show ?thesis
    by (simp add: example_expectedAmount got)
qed




text \<open>
  C10. When the proof passes the requirement checks, the request supplies no wallet address
  and the proof payload carries no payer, the payment row is created with the payer wallet
  \<open>unknown\<close>, whatever the facilitator answers afterwards. If moreover verify answers
  valid and settle answers success, neither response names a payer, and the transaction
  reference fits its column, then the payment succeeds for the payer \<open>unknown\<close>: an
  access grant for the block and the wallet \<open>unknown\<close> exists afterwards, and a later
  access check of the block for the wallet \<open>unknown\<close> succeeds.
\<close>

theorem unresolved_payer_recorded_as_unknown:
  assumes fresh: "\<forall>p\<in>set (payments db). pay_id p \<noteq> nextUuid db"
    and init: "initFailure server = None"
    and dec: "decodePaymentSignatureHeader server header = Some pp"
    and amount: "req_amount (accepted pp) = usdcToAtomic N (priceUsdc paywall)"
    and payTo: "toLowerCase (req_payTo (accepted pp)) = toLowerCase (recipientWallet paywall)"
    and no_wallet: "\<not> truthy wallet"
    and no_payer: "\<not> truthy (payloadPayer pp)"
  shows "\<exists>r db' calls p.
           processPayment N server now header paywall blockId wallet db = (Inr r, db', calls)
         \<and> payments db' = payments db @ [p] \<and> pay_id p = nextUuid db
         \<and> pay_payerWallet p = ''unknown''
         \<and> (\<forall>v s. verifyPayment server pp (accepted pp) = Inr v \<and> isValid v
                  \<and> \<not> truthy (vr_payer v)
                  \<and> serverSettlePayment server pp (accepted pp) = Inr s \<and> sr_success s
                  \<and> \<not> truthy (sr_payer s) \<and> length (transaction s) \<le> 66
              \<longrightarrow> success r \<and> res_payer r = Some ''unknown'' \<and> status p = Settled
                \<and> list_ex (\<lambda>g. ag_blockId g = blockId \<and> ag_payerWallet g = ''unknown'')
                     (accessGrants db')
                \<and> hasAccess blockId ''unknown'' db'
                \<and> bas_hasAccess (getBlockAccessStatus blockId (Some ''unknown'') db'))"
proof -
  define rec where "rec = recordPayment now \<lparr> rp_paywallId = pw_id paywall,
      rp_payerWallet = ''unknown'', rp_amountUsdc = priceUsdc paywall, rp_payerUserId = None \<rparr> db"
  define t where "t = tryBlock server now pp (fst rec) ''unknown'' blockId (snd rec)"
  have payer: "orDefault (orElse wallet (payloadPayer pp)) ''unknown'' = ''unknown''"
    using no_wallet no_payer by (simp add: orElse_falsy orDefault_falsy)
  have run: "processPayment N server now header paywall blockId wallet db
               = (Inr (fst t), fst (snd t), snd (snd t))"
    unfolding processPayment_accepted [OF init dec amount payTo]
    by (simp add: Let_def payer t_def rec_def)
  have created: "payments (snd rec) = payments db @ [fst rec]"
    unfolding rec_def by (rule payments_recordPayment)
  have newid: "pay_id (fst rec) = nextUuid db"
    unfolding rec_def by (rule pay_id_recordPayment)
  have wallet: "pay_payerWallet (fst rec) = ''unknown''"
    by (simp add: rec_def recordPayment_def Let_def toLowerCase_unknown)
  from fresh newid have "\<forall>p\<in>set (payments db). pay_id p \<noteq> pay_id (fst rec)"
    by simp
  from tryBlock_terminal [OF created this, of server now pp "''unknown''" blockId]
  obtain p where p: "payments (fst (snd t)) = payments db @ [p]" "pay_id p = nextUuid db"
      "pay_payerWallet p = ''unknown''"
      "status p = (if success (fst t) then Settled else Failed)"
    unfolding t_def newid wallet by blast
  have granted:
    "success (fst t) \<and> res_payer (fst t) = Some ''unknown'' \<and> status p = Settled
       \<and> list_ex (\<lambda>g. ag_blockId g = blockId \<and> ag_payerWallet g = ''unknown'')
            (accessGrants (fst (snd t)))
       \<and> hasAccess blockId ''unknown'' (fst (snd t))
       \<and> bas_hasAccess (getBlockAccessStatus blockId (Some ''unknown'') (fst (snd t)))"
    if verified: "verifyPayment server pp (accepted pp) = Inr v" "isValid v"
      and no_verify_payer: "\<not> truthy (vr_payer v)"
      and settled: "serverSettlePayment server pp (accepted pp) = Inr s" "sr_success s"
      and no_settle_payer: "\<not> truthy (sr_payer s)"
      and fits: "length (transaction s) \<le> 66"
    for v s
  proof -
    have actual: "orDefault (orElse (sr_payer s) (vr_payer v)) ''unknown'' = ''unknown''"
      using no_settle_payer no_verify_payer by (simp add: orElse_falsy orDefault_falsy)
    have accepted: "writesSucceed s v ''unknown'' blockId (snd rec)"
      using fits by (simp add: writesSucceed_def actual toLowerCase_unknown)
    have t: "t = (\<lparr> success = True, res_paymentId = Some (pay_id (fst rec)),
                     res_txHash = Some (transaction s), res_payer = Some ''unknown'',
                     res_error = None \<rparr>,
                  snd (grantAccess now blockId ''unknown'' (Some (pay_id (fst rec)))
                         (snd (settlePayment now (pay_id (fst rec)) (transaction s) (snd rec)))),
                  [VerifyCall, SettleCall])"
      unfolding t_def using tryBlock_success [OF verified settled accepted] actual by simp
    have access: "hasAccess blockId ''unknown'' (fst (snd t))"
      unfolding t by (simp add: hasAccess_grantAccess)
    then have grant: "list_ex (\<lambda>g. ag_blockId g = blockId \<and> ag_payerWallet g = ''unknown'')
                        (accessGrants (fst (snd t)))"
      by (simp add: hasAccess_iff toLowerCase_unknown list_ex_iff)
    from access have "bas_hasAccess (getBlockAccessStatus blockId (Some ''unknown'') (fst (snd t)))"
      by (rule status_hasAccess)
    moreover have "success (fst t)" "res_payer (fst t) = Some ''unknown''"
      unfolding t by simp_all
    ultimately show ?thesis
      using access grant p(4) by simp
  qed
  from run p(1-3) granted show ?thesis
    by (intro exI [of _ "fst t"] exI [of _ "fst (snd t)"] exI [of _ "snd (snd t)"] exI [of _ p])
       blast
qed

theorem unresolved_payer_recorded_as_unknown_witness:
  "\<exists>r db' calls p.
      processPayment exampleNumber (exampleServer verifiedResponse settledResponse) 200 ''proof''
        examplePaywall 42 None exampleDb = (Inr r, db', calls)
    \<and> payments db' = [p] \<and> pay_payerWallet p = ''unknown'' \<and> res_payer r = Some ''unknown''
    \<and> hasAccess 42 ''unknown'' db'"
proof -
  let ?server = "exampleServer verifiedResponse settledResponse"
  let ?v = "\<lparr> isValid = True, invalidReason = None, vr_payer = None \<rparr>"
  let ?s = "\<lparr> sr_success = True, errorReason = None, transaction = ''0xTxHash'',
             sr_payer = None \<rparr>"
  have fresh: "\<forall>p\<in>set (payments exampleDb). pay_id p \<noteq> nextUuid exampleDb"
    by (simp add: exampleDb_def)
  have init: "initFailure ?server = None"
    by (simp add: exampleServer_def)
  have dec: "decodePaymentSignatureHeader ?server ''proof'' = Some examplePayload"
    by (simp add: exampleServer_def)
  have amount: "req_amount (accepted examplePayload) = usdcToAtomic exampleNumber (priceUsdc examplePaywall)"
    by (simp add: example_expectedAmount) (simp add: examplePayload_def)
  have no_wallet: "\<not> truthy None"
    by (simp add: truthy_def)
  have no_payer: "\<not> truthy (payloadPayer examplePayload)"
    by (simp add: truthy_def examplePayload_def)
  have answers:
    "verifyPayment ?server examplePayload (accepted examplePayload) = Inr ?v \<and> isValid ?v
     \<and> \<not> truthy (vr_payer ?v)
     \<and> serverSettlePayment ?server examplePayload (accepted examplePayload) = Inr ?s
     \<and> sr_success ?s \<and> \<not> truthy (sr_payer ?s) \<and> length (transaction ?s) \<le> 66"
    by (simp add: exampleServer_def verifiedResponse_def settledResponse_def truthy_def)
  from unresolved_payer_recorded_as_unknown
         [OF fresh init dec amount example_payTo no_wallet no_payer, of 200 42]
  obtain r db' calls p where
    run: "processPayment exampleNumber ?server 200 ''proof'' examplePaywall 42 None exampleDb
            = (Inr r, db', calls)"
    and rows: "payments db' = payments exampleDb @ [p]" "pay_payerWallet p = ''unknown''"
    and granted: "\<And>v s. verifyPayment ?server examplePayload (accepted examplePayload) = Inr v
          \<and> isValid v \<and> \<not> truthy (vr_payer v)
          \<and> serverSettlePayment ?server examplePayload (accepted examplePayload) = Inr s
          \<and> sr_success s \<and> \<not> truthy (sr_payer s) \<and> length (transaction s) \<le> 66
        \<Longrightarrow> res_payer r = Some ''unknown'' \<and> hasAccess 42 ''unknown'' db'"
    by blast
  from granted [OF answers] run rows show ?thesis
    by (simp add: exampleDb_def)
qed

text \<open>
  C4. Granting is idempotent. In a ledger that contains each pair of block and payer
  wallet at most once (the table's unique constraint), a call of \<open>grantAccess\<close> followed
  by a second call for the same block and the same wallet address up to letter case, with
  any payment id and at any later time, returns the same grant and leaves the database of
  the first call as it is; the ledger then holds exactly one row for the pair. When the
  pair had no grant before, that row is the one the first call created, with the first
  call's payment id.
\<close>

theorem grantAccess_idempotent:
  assumes unique: "distinct (map (\<lambda>g. (ag_blockId g, ag_payerWallet g)) (accessGrants db))"
    and same: "toLowerCase wallet' = toLowerCase wallet"
  shows "\<exists>g db1.
           grantAccess now blockId wallet pay db = (g, db1)
         \<and> grantAccess now' blockId wallet' pay' db1 = (g, db1)
         \<and> grantsFor blockId (toLowerCase wallet) db1 = [g]
         \<and> (if grantsFor blockId (toLowerCase wallet) db = []
             then ag_paymentId g = pay \<and> grantedAt g = now
                  \<and> accessGrants db1 = accessGrants db @ [g]
             else db1 = db)"
proof (cases "grantsFor blockId (toLowerCase wallet) db")
  case Nil
  define g where "g = \<lparr> ag_id = nextUuid db, ag_blockId = blockId,
      ag_payerWallet = toLowerCase wallet, ag_paymentId = pay, grantedAt = now \<rparr>"
  define db1 where "db1 = db\<lparr> accessGrants := accessGrants db @ [g], nextUuid := Suc (nextUuid db) \<rparr>"
  from Nil have first: "grantAccess now blockId wallet pay db = (g, db1)"
    by (simp add: grantAccess_def Let_def g_def db1_def)
  from Nil have rows: "grantsFor blockId (toLowerCase wallet) db1 = [g]"
    by (simp add: grantsFor_def db1_def g_def)
  then have "grantAccess now' blockId wallet' pay' db1 = (g, db1)"
    by (simp add: grantAccess_def Let_def same)
  with first rows Nil show ?thesis
    by (intro exI [of _ g] exI [of _ db1]) (simp add: g_def db1_def)
next
  case (Cons g gs)
  with grantsFor_unique [OF unique, of blockId "toLowerCase wallet"] have gs: "gs = []"
    by simp
  with Cons have first: "grantAccess now blockId wallet pay db = (g, db)"
    by (simp add: grantAccess_def Let_def)
  from Cons gs have "grantAccess now' blockId wallet' pay' db = (g, db)"
    by (simp add: grantAccess_def Let_def same)
  with first Cons gs show ?thesis
    by (intro exI [of _ g] exI [of _ db]) simp
qed

theorem grantAccess_idempotent_witness:
  "\<exists>g db1.
      grantAccess 300 42 ''0xpayer'' (Some 10) exampleDb = (g, db1)
    \<and> grantAccess 400 42 ''0xPAYER'' (Some 11) db1 = (g, db1)
    \<and> accessGrants db1 = [g] \<and> ag_paymentId g = Some 10 \<and> grantedAt g = 300"
proof -
  have unique: "distinct (map (\<lambda>g. (ag_blockId g, ag_payerWallet g)) (accessGrants exampleDb))"
    by (simp add: exampleDb_def)
  have none: "grantsFor 42 (toLowerCase ''0xpayer'') exampleDb = []"
    by (simp add: grantsFor_def exampleDb_def)
  from grantAccess_idempotent [OF unique example_wallet_case, of 300 42 "Some 10" 400 "Some 11"]
  show ?thesis
    unfolding none by (simp add: exampleDb_def) blast
qed

text \<open>
  C5. For a block with no active paywall, \<open>getBlockAccessStatus\<close> answers not paywalled
  and access granted, whatever wallet address is given or not given. For a block with an
  active paywall and no wallet address (absent or empty), it answers paywalled and no access.
\<close>

theorem getBlockAccessStatus_free_or_anonymous:
  "(\<not> list_ex (\<lambda>p. pw_blockId p = blockId \<and> active p) (paywalls db) \<longrightarrow>
       \<not> isPaywalled (getBlockAccessStatus blockId wallet db)
     \<and> bas_hasAccess (getBlockAccessStatus blockId wallet db))
   \<and> (list_ex (\<lambda>p. pw_blockId p = blockId \<and> active p) (paywalls db) \<and> \<not> truthy wallet \<longrightarrow>
       isPaywalled (getBlockAccessStatus blockId wallet db)
     \<and> \<not> bas_hasAccess (getBlockAccessStatus blockId wallet db))"
proof -
  have "take 1 (filter (\<lambda>p. pw_blockId p = blockId \<and> active p) (paywalls db)) = [] \<longleftrightarrow>
          \<not> list_ex (\<lambda>p. pw_blockId p = blockId \<and> active p) (paywalls db)"
    using take1_nonempty [of "filter (\<lambda>p. pw_blockId p = blockId \<and> active p) (paywalls db)"]
    by (auto simp: filter_empty_conv list_ex_iff)
  then show ?thesis
    by (auto simp: getBlockAccessStatus_def Let_def split: list.splits)
qed

theorem getBlockAccessStatus_free_or_anonymous_witness:
  "\<not> isPaywalled (getBlockAccessStatus 7 (Some ''0xpayer'') exampleDb)
   \<and> bas_hasAccess (getBlockAccessStatus 7 (Some ''0xpayer'') exampleDb)
   \<and> isPaywalled (getBlockAccessStatus 42 None exampleDb)
   \<and> \<not> bas_hasAccess (getBlockAccessStatus 42 None exampleDb)"
proof -
  have free: "\<not> list_ex (\<lambda>p. pw_blockId p = 7 \<and> active p) (paywalls exampleDb)"
    by (simp add: exampleDb_def exampleRow_def)
  have paywalled: "list_ex (\<lambda>p. pw_blockId p = 42 \<and> active p) (paywalls exampleDb)
                     \<and> \<not> truthy None"
    by (simp add: exampleDb_def exampleRow_def truthy_def)
  from getBlockAccessStatus_free_or_anonymous [of 7 exampleDb "Some ''0xpayer''"]
       getBlockAccessStatus_free_or_anonymous [of 42 exampleDb None] free paywalled
  show ?thesis
    by blast
qed

text \<open>
  C9. For every paywall row of a registry with one row for each block (the table's unique
  constraint) and every requester who is not the row's owner, \<open>updatePaywall\<close>,
  \<open>deletePaywall\<close> and \<open>deactivatePaywall\<close> throw the error with code \<open>FORBIDDEN\<close>
  and the database stays as it was. The code differs from \<open>NOT_FOUND\<close>, and the route
  answers the two with different status codes.
\<close>

theorem non_owner_is_forbidden:
  assumes unique: "distinct (map pw_blockId (paywalls db))"
    and row: "p \<in> set (paywalls db)"
    and other: "ownerUserId p \<noteq> Some requester"
  shows "updatePaywall N now (pw_blockId p) requester updates db
           = (Inl (PaywallError ''You do not own this paywall'' FORBIDDEN), db)
       \<and> deletePaywall (pw_blockId p) requester db
           = (Inl (PaywallError ''You do not own this paywall'' FORBIDDEN), db)
       \<and> deactivatePaywall now (pw_blockId p) requester db
           = (Inl (PaywallError ''You do not own this paywall'' FORBIDDEN), db)
       \<and> FORBIDDEN \<noteq> NOT_FOUND
       \<and> deleteStatusCode FORBIDDEN \<noteq> deleteStatusCode NOT_FOUND"
proof -
  from getPaywallByBlockId_owner [OF unique row] other
  obtain existing where "getPaywallByBlockId (pw_blockId p) db = Some existing"
    and "ownerUserId existing \<noteq> Some requester"
    by auto
  then show ?thesis
    by (simp add: updatePaywall_def deletePaywall_def deactivatePaywall_def deleteStatusCode_def)
qed

theorem non_owner_is_forbidden_witness:
  "updatePaywall exampleNumber 500 42 8 \<lparr> up_priceUsdc = Some ''0.01'', up_recipientWallet = None,
       up_active = Some False \<rparr> exampleDb
     = (Inl (PaywallError ''You do not own this paywall'' FORBIDDEN), exampleDb)
   \<and> deletePaywall 42 8 exampleDb
     = (Inl (PaywallError ''You do not own this paywall'' FORBIDDEN), exampleDb)"
proof -
  have unique: "distinct (map pw_blockId (paywalls exampleDb))"
    by (simp add: exampleDb_def)
  have row: "exampleRow \<in> set (paywalls exampleDb)"
    by (simp add: exampleDb_def)
  have other: "ownerUserId exampleRow \<noteq> Some 8"
    by (simp add: exampleRow_def)
  have block: "pw_blockId exampleRow = 42"
    by (simp add: exampleRow_def)
  from non_owner_is_forbidden [OF unique row other, of exampleNumber 500] 
  show ?thesis
    unfolding block by simp
qed

text \<open>
  C6, as the code has it. From any database, for every payment id \<open>i\<close>:
  \<open>recordPayment\<close> leaves the status of an existing payment as it is and creates the
  payment with the next id as pending, and creates no other; \<open>settlePayment\<close> sets the
  status of the payment it names to settled and \<open>failPayment\<close> sets it to failed,
  whatever the status was, and both leave every other payment and a payment that does not
  exist as they are. So the store does not keep a terminal status fixed: failed becomes
  settled and settled becomes failed. Along every sequence of the three operations the
  status of a payment changes only as \<open>storeStep\<close> allows: it appears as pending and,
  once it has left pending, is never pending again.
\<close>

theorem store_operations_set_status:
  "statusOf i (applyOp (RecordPayment created params) db)
     = (case statusOf i db of
          Some st \<Rightarrow> Some st
        | None \<Rightarrow> if i = nextUuid db then Some Pending else None)
   \<and> statusOf i (applyOp (SettlePayment settled j tx) db)
     = (if i = j then map_option (\<lambda>_. Settled) (statusOf i db) else statusOf i db)
   \<and> statusOf i (applyOp (FailPayment j reason) db)
     = (if i = j then map_option (\<lambda>_. Failed) (statusOf i db) else statusOf i db)
   \<and> storeStep (statusOf i (runOps (take k ops) db)) (statusOf i (runOps (take (Suc k) ops) db))"
proof -
  have "storeStep (statusOf i (runOps (take k ops) db))
          (statusOf i (runOps (take (Suc k) ops) db))"
  proof (cases "k < length ops")
    case True
    then have "take (Suc k) ops = take k ops @ [ops ! k]"
      by (rule take_Suc_conv_app_nth)
    then show ?thesis
      by (simp add: runOps_snoc storeStep_applyOp)
  next
    case False
    then show ?thesis
      by (simp add: storeStep_refl)
  qed
  then show ?thesis
    by (simp add: statusOf_recordPayment statusOf_settlePayment statusOf_failPayment)
qed

theorem store_operations_set_status_witness:
  "statusOf 10 (runOps [RecordPayment 200 exampleParams] exampleDb) = Some Pending
   \<and> statusOf 10 (runOps [RecordPayment 200 exampleParams, FailPayment 10 None] exampleDb)
       = Some Failed
   \<and> statusOf 10 (runOps [RecordPayment 200 exampleParams, FailPayment 10 None,
                           SettlePayment 201 10 ''0xTxHash''] exampleDb) = Some Settled"
proof -
  let ?db1 = "applyOp (RecordPayment 200 exampleParams) exampleDb"
  let ?db2 = "applyOp (FailPayment 10 None) ?db1"
  let ?db3 = "applyOp (SettlePayment 201 10 ''0xTxHash'') ?db2"
  have absent: "statusOf 10 exampleDb = None"
    by (simp add: statusOf_def getPaymentById_def exampleDb_def)
  have next_id: "nextUuid exampleDb = 10"
    by (simp add: exampleDb_def)
  from store_operations_set_status [where i = 10 and created = 200 and params = exampleParams
         and db = exampleDb] absent next_id
  have pending: "statusOf 10 ?db1 = Some Pending"
    by simp
  from store_operations_set_status [where i = 10 and j = 10 and reason = None and db = ?db1] pending
  have failed: "statusOf 10 ?db2 = Some Failed"
    by simp
  from store_operations_set_status [where i = 10 and j = 10 and settled = 201
         and tx = "''0xTxHash''" and db = ?db2] failed
  have "statusOf 10 ?db3 = Some Settled"
    by simp
  with pending failed show ?thesis
    by (simp add: runOps_def)
qed

text \<open>
  C6, as the specification states it, fails: a payment recorded and settled is failed
  after a call of \<open>failPayment\<close>, so a terminal status was reversed and written twice.
\<close>

theorem settled_payment_can_fail:
  "statusOf 10 (runOps [RecordPayment 200 exampleParams] exampleDb) = Some Pending
   \<and> statusOf 10 (runOps [RecordPayment 200 exampleParams, SettlePayment 201 10 ''0xTxHash'']
                    exampleDb) = Some Settled
   \<and> statusOf 10 (runOps [RecordPayment 200 exampleParams, SettlePayment 201 10 ''0xTxHash'',
                           FailPayment 10 None] exampleDb) = Some Failed"
  by (simp add: runOps_def statusOf_recordPayment statusOf_settlePayment statusOf_failPayment)
     (simp add: statusOf_def getPaymentById_def exampleDb_def recordPayment_def Let_def)

text \<open>
  C8. \<open>getPaywallsForBlocks\<close> returns the right map (\<open>getPaywallsForBlocks_map\<close>), but
  not by a single bulk fetch: for the two block ids 42 and 7 it issues three queries, one
  for all active paywalls, whose rows it does not read, and one for each id.
\<close>

theorem getPaywallsForBlocks_query_per_id:
  "snd (getPaywallsForBlocks [42, 7] exampleDb)
     = [SelectAllActive, SelectActiveByBlock 42, SelectActiveByBlock 7]
   \<and> length (snd (getPaywallsForBlocks [42, 7] exampleDb)) = 3"
  by (simp add: getPaywallsForBlocks_def Let_def)

end
